theory Spec2Isabelle
  imports Main
begin

section \<open>Strings of the generator\<close>

text \<open>
  The generator (\<^verbatim>\<open>src/keyclsound-generator.pyw\<close>) works on Python \<^verbatim>\<open>str\<close> values.
  They are modelled as \<^typ>\<open>string\<close>; a \<^typ>\<open>char\<close> stands for the code point of the
  same number, so the model covers the texts whose code points are below 256.
\<close>

definition isspace :: "char \<Rightarrow> bool" where
  \<comment> \<open>the code points below 256 that \<^verbatim>\<open>str.strip()\<close> removes\<close>
  "isspace c =
     (let n = (of_char c :: nat)
      in (9 \<le> n \<and> n \<le> 13) \<or> (28 \<le> n \<and> n \<le> 32) \<or> n = 133 \<or> n = 160)"

definition strip :: "string \<Rightarrow> string" where
  \<comment> \<open>\<^verbatim>\<open>s.strip()\<close>\<close>
  "strip s = rev (dropWhile isspace (rev (dropWhile isspace s)))"

definition endswith :: "string \<Rightarrow> string \<Rightarrow> bool" where
  \<comment> \<open>\<^verbatim>\<open>s.endswith(suf)\<close> for one suffix\<close>
  "endswith s suf = (take (length suf) (rev s) = rev suf)"

definition endswith_audio :: "string \<Rightarrow> bool" where
  \<comment> \<open>\<^verbatim>\<open>s.endswith((".mp3", ".wav", ".ogg"))\<close>\<close>
  "endswith_audio s = (endswith s ''.mp3'' \<or> endswith s ''.wav'' \<or> endswith s ''.ogg'')"

definition digit_char :: "nat \<Rightarrow> char" where
  "digit_char d = ''0123456789'' ! d"

fun str_nat :: "nat \<Rightarrow> string" where
  "str_nat n = (if n < 10 then [digit_char n] else str_nat (n div 10) @ [digit_char (n mod 10)])"

declare str_nat.simps [simp del]

definition str_int :: "int \<Rightarrow> string" where
  \<comment> \<open>the decimal text an f-string gives for an \<^verbatim>\<open>int\<close>\<close>
  "str_int i = (if i < 0 then CHR ''-'' # str_nat (nat (- i)) else str_nat (nat i))"

fun split_on :: "char \<Rightarrow> string \<Rightarrow> string list" where
  \<comment> \<open>\<^verbatim>\<open>s.split(sep)\<close> for a separator of one character\<close>
  "split_on sep [] = [[]]"
| "split_on sep (c # cs) =
     (if c = sep then [] # split_on sep cs
      else (case split_on sep cs of [] \<Rightarrow> [[c]] | w # ws \<Rightarrow> (c # w) # ws))"

fun join :: "string \<Rightarrow> string list \<Rightarrow> string" where
  \<comment> \<open>\<^verbatim>\<open>sep.join(xs)\<close>\<close>
  "join sep [] = []"
| "join sep [x] = x"
| "join sep (x # y # ys) = x @ sep @ join sep (y # ys)"

section \<open>File names and the file system\<close>

definition randint_ok :: "int \<Rightarrow> bool" where
  \<comment> \<open>the values \<^verbatim>\<open>random.randint(10000000, 99999999)\<close> can return (both ends included)\<close>
  "randint_ok r = (10000000 \<le> r \<and> r \<le> 99999999)"

definition generate_random_filename :: "int \<Rightarrow> string" where
  \<comment> \<open>\<^verbatim>\<open>r\<close> is the number drawn by \<^verbatim>\<open>random.randint\<close>\<close>
  "generate_random_filename r = str_int r @ ''.keyclsound''"

definition is_digit :: "char \<Rightarrow> bool" where
  "is_digit c = (let n = (of_char c :: nat) in 48 \<le> n \<and> n \<le> 57)"

definition matches_filename_pattern :: "string \<Rightarrow> bool" where
  \<comment> \<open>the pattern \<^verbatim>\<open>^\d{8}\.keyclsound$\<close>, with ASCII digits and no final line feed\<close>
  "matches_filename_pattern s =
     (length s = 19 \<and> list_all is_digit (take 8 s) \<and> drop 8 s = ''.keyclsound'')"

datatype py_error = OSError | IndexError

record file_system =
  contents :: "string \<rightharpoonup> string"
  denied :: "string \<Rightarrow> bool"

definition open_w_write :: "string \<Rightarrow> string \<Rightarrow> file_system \<Rightarrow> py_error + file_system" where
  \<comment> \<open>\<^verbatim>\<open>with open(filename, "w", encoding="utf-8") as f: f.write(data)\<close>: mode \<^verbatim>\<open>"w"\<close>
      creates the file or truncates the one that is there; \<^verbatim>\<open>denied\<close> holds the names
      whose opening raises\<close>
  "open_w_write filename data fs =
     (if denied fs filename then Inl OSError
      else Inr (fs\<lparr>contents := (contents fs)(filename \<mapsto> data)\<rparr>))"

definition save_keyclsound :: "string \<Rightarrow> int \<Rightarrow> file_system \<Rightarrow> py_error + (string \<times> file_system)" where
  "save_keyclsound data r fs =
     (let filename = generate_random_filename r
      in case open_w_write filename data fs of
           Inl e \<Rightarrow> Inl e
         | Inr fs' \<Rightarrow> Inr (filename, fs'))"

section \<open>The remote listing\<close>

text \<open>
  An entry of the listing is the dictionary the service returns; its keys \<^verbatim>\<open>type\<close>,
  \<^verbatim>\<open>name\<close>, \<^verbatim>\<open>path\<close> and \<^verbatim>\<open>download_url\<close> are the fields below. A row of the list box is
  its name behind one of three icons, or the row \<^verbatim>\<open>[..]\<close> that leads back.
\<close>

record item =
  item_type :: string
  item_name :: string
  item_path :: string
  item_download_url :: string

record response =
  status_code :: int
  json :: "item list option"

datatype http_outcome = Raises | Returns response

definition BASE_API_URL :: string where
  "BASE_API_URL = ''https://api.github.com/repos/OptionallyBlueStudios/KeyCL/contents''"

definition api_url :: "string \<Rightarrow> string" where
  "api_url path = (if path \<noteq> [] then BASE_API_URL @ ''/'' @ path else BASE_API_URL)"

definition fetch_repo_contents :: "(string \<Rightarrow> http_outcome) \<Rightarrow> string \<Rightarrow> item list" where
  \<comment> \<open>\<^verbatim>\<open>requests_get\<close> is \<^verbatim>\<open>requests.get\<close>, which raises (\<^verbatim>\<open>Raises\<close>, an \<^verbatim>\<open>Exception\<close>) or
      returns a response; \<^verbatim>\<open>json = None\<close> is a body that \<^verbatim>\<open>response.json()\<close> cannot parse,
      which raises inside the \<^verbatim>\<open>try\<close>\<close>
  "fetch_repo_contents requests_get path =
     (case requests_get (api_url path) of
        Raises \<Rightarrow> []
      | Returns response \<Rightarrow>
          (if status_code response = 200
           then (case json response of None \<Rightarrow> [] | Some items \<Rightarrow> items)
           else []))"

section \<open>The window\<close>

datatype icon = Folder | Note | Page

datatype row = Back | Entry icon string

datatype dialog = ShowError string string | ShowInfo string string

record ui_state =
  title_entry :: string
  author_entry :: string
  desc_entry :: string
  tags_entry :: string
  manual_url_entry :: string
  selected_url :: string
  current_path :: string
  repo_label :: string
  files_listbox :: "row list"
  curselection :: "nat list"
  bound_items :: "item list"
  dialogs :: "dialog list"
  disk :: file_system

definition messagebox :: "dialog \<Rightarrow> ui_state \<Rightarrow> ui_state" where
  "messagebox d s = s\<lparr>dialogs := dialogs s @ [d]\<rparr>"

definition row_of :: "item \<Rightarrow> row" where
  "row_of it =
     (if item_type it = ''dir'' then Entry Folder (item_name it)
      else if item_type it = ''file'' \<and> endswith_audio (item_name it) then Entry Note (item_name it)
      else Entry Page (item_name it))"

definition load_repo :: "(string \<Rightarrow> http_outcome) \<Rightarrow> string \<Rightarrow> ui_state \<Rightarrow> ui_state" where
  "load_repo requests_get path s =
     (let items = fetch_repo_contents requests_get path
      in s\<lparr>current_path := path,
           repo_label := (if path \<noteq> [] then ''Browsing: /'' @ path else ''Browsing: /''),
           files_listbox := (if path \<noteq> [] then [Back] else []) @ map row_of items,
           curselection := [],
           bound_items := items\<rparr>)"

definition select_item ::
  "(string \<Rightarrow> http_outcome) \<Rightarrow> item list \<Rightarrow> ui_state \<Rightarrow> py_error + ui_state" where
  "select_item requests_get items s =
     (case curselection s of
        [] \<Rightarrow> Inr s
      | idx # _ \<Rightarrow>
          if current_path s \<noteq> [] \<and> idx = 0
          then Inr (load_repo requests_get (join ''/'' (butlast (split_on CHR ''/'' (current_path s)))) s)
          else
            let i = (if current_path s = [] then idx else idx - 1)
            in if length items \<le> i then Inl IndexError
               else
                 let it = items ! i
                 in if item_type it = ''dir'' then Inr (load_repo requests_get (item_path it) s)
                    else if item_type it = ''file'' then
                      (if endswith_audio (item_name it)
                       then Inr (s\<lparr>selected_url := item_download_url it,
                                   manual_url_entry := item_download_url it\<rparr>)
                       else Inr (messagebox
                                   (ShowInfo ''Info'' ''Only .mp3, .wav, or .ogg can be selected for KeyCL.'') s))
                    else Inr s)"

definition generate_file_handler :: "int \<Rightarrow> ui_state \<Rightarrow> py_error + ui_state" where
  \<comment> \<open>the handler \<^verbatim>\<open>generate_file()\<close> of the source (the bare name is a keyword of
      Isabelle); \<^verbatim>\<open>r\<close> is the number \<^verbatim>\<open>save_keyclsound\<close> draws for the file name\<close>
  "generate_file_handler r s =
     (let final_url = strip (manual_url_entry s)
      in if strip (author_entry s) = [] \<or> strip (tags_entry s) = [] \<or> final_url = []
         then Inr (messagebox (ShowError ''Error'' ''Author, Tags, and URL are required!'') s)
         else if \<not> endswith_audio final_url
         then Inr (messagebox (ShowError ''Error'' ''URL must end with .mp3, .wav, or .ogg'') s)
         else
           let data =
                 ''title: '' @ (if strip (title_entry s) \<noteq> [] then strip (title_entry s)
                               else ''Untitled Song'') @ ''\<newline>'' @
                 ''author: '' @ strip (author_entry s) @ ''\<newline>'' @
                 ''description: '' @ strip (desc_entry s) @ ''\<newline>'' @
                 ''tags: '' @ strip (tags_entry s) @ ''\<newline>'' @
                 ''url: '' @ final_url @ ''\<newline>''
           in case save_keyclsound data r (disk s) of
                Inl e \<Rightarrow> Inl e
              | Inr (filename, fs') \<Rightarrow>
                  Inr (messagebox (ShowInfo ''Success'' (''Saved as '' @ filename)) (s\<lparr>disk := fs'\<rparr>)))"

section \<open>The descriptor codec\<close>

text \<open>
  The specification names the parts of \<^verbatim>\<open>generate_file()\<close>: \<^verbatim>\<open>validate\<close> is its two
  checks together with the default of the title (lines 146 to 152 and 155), \<^verbatim>\<open>encode\<close> is
  the f-string that builds \<^verbatim>\<open>data\<close> (lines 154 to 160). Both take the entries as
  \<^verbatim>\<open>generate_file()\<close> uses them, that is after \<^verbatim>\<open>strip()\<close>. Lemma
  \<open>generate_file_handler_codec\<close> below shows that the handler is their composition.
\<close>

record descriptor =
  title :: string
  author :: string
  description :: string
  tags :: string
  url :: string

datatype codec_error = ValidationError string | ParseError

definition validate ::
  "string \<Rightarrow> string \<Rightarrow> string \<Rightarrow> string \<Rightarrow> string \<Rightarrow> codec_error + descriptor" where
  "validate t a d g u =
     (if a = [] \<or> g = [] \<or> u = []
      then Inl (ValidationError ''Author, Tags, and URL are required!'')
      else if \<not> endswith_audio u
      then Inl (ValidationError ''URL must end with .mp3, .wav, or .ogg'')
      else Inr \<lparr>title = (if t \<noteq> [] then t else ''Untitled Song''),
                author = a, description = d, tags = g, url = u\<rparr>)"

definition encode :: "descriptor \<Rightarrow> string" where
  "encode x =
     ''title: '' @ title x @ ''\<newline>'' @
     ''author: '' @ author x @ ''\<newline>'' @
     ''description: '' @ description x @ ''\<newline>'' @
     ''tags: '' @ tags x @ ''\<newline>'' @
     ''url: '' @ url x @ ''\<newline>''"

definition blank :: "string \<Rightarrow> bool" where
  \<comment> \<open>\<^verbatim>\<open>not s.strip()\<close>\<close>
  "blank s = (strip s = [])"

definition valid_descriptor :: "descriptor \<Rightarrow> bool" where
  \<comment> \<open>the well-formed descriptors of the specification, with the title normalised\<close>
  "valid_descriptor x =
     (\<not> blank (author x) \<and> \<not> blank (tags x) \<and> \<not> blank (url x) \<and> endswith_audio (url x)
      \<and> \<not> blank (title x))"

definition single_line :: "string \<Rightarrow> bool" where
  "single_line v = (CHR ''\<newline>'' \<notin> set v)"

definition single_line_fields :: "descriptor \<Rightarrow> bool" where
  "single_line_fields x =
     (single_line (title x) \<and> single_line (author x) \<and> single_line (description x)
      \<and> single_line (tags x) \<and> single_line (url x))"

fun splitlines_from :: "string \<Rightarrow> string \<Rightarrow> string list" where
  \<comment> \<open>the lines of a text, the first one continuing \<^verbatim>\<open>cur\<close>; a line feed ends a line,
      and a text that ends with one has no further, empty line\<close>
  "splitlines_from cur [] = (if cur = [] then [] else [cur])"
| "splitlines_from cur (c # cs) =
     (if c = CHR ''\<newline>'' then cur # splitlines_from [] cs
      else splitlines_from (cur @ [c]) cs)"

definition splitlines :: "string \<Rightarrow> string list" where
  "splitlines text = splitlines_from [] text"

fun split_kv :: "string \<Rightarrow> (string \<times> string) option" where
  \<comment> \<open>a line \<^verbatim>\<open>key: value\<close> is cut at its first colon followed by a space\<close>
  "split_kv [] = None"
| "split_kv (c # cs) =
     (if c = CHR '':'' \<and> take 1 cs = '' '' then Some ([], drop 1 cs)
      else (case split_kv cs of None \<Rightarrow> None | Some (k, v) \<Rightarrow> Some (c # k, v)))"

fun parse_lines :: "string list \<Rightarrow> (string \<times> string) list option" where
  "parse_lines [] = Some []"
| "parse_lines (l # ls) =
     (case split_kv l of
        None \<Rightarrow> None
      | Some kv \<Rightarrow> (case parse_lines ls of None \<Rightarrow> None | Some kvs \<Rightarrow> Some (kv # kvs)))"

text \<open>
  Modelled from the spec: \<^verbatim>\<open>decode\<close>, the reader of a \<^verbatim>\<open>.keyclsound\<close> text, which the
  sources of the generator do not contain. Following section 4.1 and section 6 of the
  specification it reads one \<^verbatim>\<open>key: value\<close> pair per line, fails with \<^verbatim>\<open>ParseError\<close> when
  a line has not that form or when one of the required keys \<^verbatim>\<open>author\<close>, \<^verbatim>\<open>tags\<close>, \<^verbatim>\<open>url\<close> is
  missing, ignores unknown keys, and gives an absent or blank \<^verbatim>\<open>title\<close> its default and an
  absent \<^verbatim>\<open>description\<close> the empty text. Of a key given twice the first value counts (the
  specification leaves this open).
\<close>

definition decode :: "string \<Rightarrow> codec_error + descriptor" where
  "decode text =
     (case parse_lines (splitlines text) of
        None \<Rightarrow> Inl ParseError
      | Some kvs \<Rightarrow>
          (case (map_of kvs ''author'', map_of kvs ''tags'', map_of kvs ''url'') of
             (Some a, Some g, Some u) \<Rightarrow>
               Inr \<lparr>title = (case map_of kvs ''title'' of
                               None \<Rightarrow> ''Untitled Song''
                             | Some t \<Rightarrow> if blank t then ''Untitled Song'' else t),
                    author = a,
                    description = (case map_of kvs ''description'' of None \<Rightarrow> [] | Some d \<Rightarrow> d),
                    tags = g, url = u\<rparr>
           | _ \<Rightarrow> Inl ParseError))"

section \<open>Example data\<close>

definition quork :: descriptor where
  \<comment> \<open>the end-to-end example of the specification\<close>
  "quork = \<lparr>title = ''Quork'', author = ''MyInstants'', description = ''A funny quack sound'',
            tags = ''duck,funny,quack'', url = ''https://example.com/cannard.mp3''\<rparr>"

definition spaced :: descriptor where
  \<comment> \<open>the example with an empty line inside its description\<close>
  "spaced = quork\<lparr>description := ''A funny\<newline>\<newline>quack sound''\<rparr>"

definition two_line :: descriptor where
  \<comment> \<open>a description of two lines, the second one looking like a pair\<close>
  "two_line = \<lparr>title = ''T'', author = ''A'', description = ''x\<newline>tags: a'',
               tags = ''b'', url = ''u.mp3''\<rparr>"

definition two_line_twin :: descriptor where
  "two_line_twin = \<lparr>title = ''T'', author = ''A'', description = ''x'',
                    tags = ''a\<newline>tags: b'', url = ''u.mp3''\<rparr>"

definition old_disk :: file_system where
  \<comment> \<open>a directory that already holds a file with a name the generator can draw\<close>
  "old_disk = \<lparr>contents = [''12345678.keyclsound'' \<mapsto> ''old''], denied = (\<lambda>_. False)\<rparr>"

definition song :: item where
  "song = \<lparr>item_type = ''file'', item_name = ''duck.mp3'', item_path = ''sounds/duck.mp3'',
            item_download_url = ''https://raw.example/duck.mp3''\<rparr>"

definition readme :: item where
  "readme = \<lparr>item_type = ''file'', item_name = ''README.md'', item_path = ''README.md'',
              item_download_url = ''https://raw.example/README.md''\<rparr>"

definition offline :: "string \<Rightarrow> http_outcome" where
  "offline u = Raises"

definition not_found :: "string \<Rightarrow> http_outcome" where
  "not_found u = Returns \<lparr>status_code = 404, json = Some [readme]\<rparr>"

definition listing :: "string \<Rightarrow> http_outcome" where
  "listing u = Returns \<lparr>status_code = 200, json = Some [readme, song]\<rparr>"

definition garbled :: "string \<Rightarrow> http_outcome" where
  "garbled u = Returns \<lparr>status_code = 200, json = None\<rparr>"

definition window :: ui_state where
  \<comment> \<open>the window after the root of the repository was loaded and its first row selected,
      with the author left empty\<close>
  "window = \<lparr>title_entry = '' '', author_entry = [], desc_entry = [], tags_entry = ''duck'',
              manual_url_entry = ''https://example.com/a.mp3'', selected_url = [],
              current_path = [], repo_label = ''Browsing: /'',
              files_listbox = [Entry Page ''README.md'', Entry Note ''duck.mp3''],
              curselection = [0], bound_items = [readme, song], dialogs = [],
              disk = old_disk\<rparr>"

section \<open>The handler as a composition of the codec\<close>

lemma generate_file_handler_codec:
  "generate_file_handler r s =
     (case validate (strip (title_entry s)) (strip (author_entry s)) (strip (desc_entry s))
             (strip (tags_entry s)) (strip (manual_url_entry s)) of
        Inl (ValidationError m) \<Rightarrow> Inr (messagebox (ShowError ''Error'' m) s)
      | Inl ParseError \<Rightarrow> Inr s
      | Inr x \<Rightarrow>
          (case save_keyclsound (encode x) r (disk s) of
             Inl e \<Rightarrow> Inl e
           | Inr (filename, fs') \<Rightarrow>
               Inr (messagebox (ShowInfo ''Success'' (''Saved as '' @ filename)) (s\<lparr>disk := fs'\<rparr>))))"
  by (simp add: generate_file_handler_def validate_def encode_def Let_def)

section \<open>Facts about the string functions\<close>

lemmas strip_eval = blank_def strip_def isspace_def

lemmas audio_eval = endswith_audio_def endswith_def

lemma endswith_iff: "endswith s suf \<longleftrightarrow> (\<exists>p. s = p @ suf)"
proof
  assume "endswith s suf"
  then have "take (length suf) (rev s) = rev suf" by (simp add: endswith_def)
  then have "rev s = rev suf @ drop (length suf) (rev s)"
    by (metis append_take_drop_id)
  then have "s = rev (drop (length suf) (rev s)) @ suf"
    by (metis rev_append rev_rev_ident)
  then show "\<exists>p. s = p @ suf" ..
next
  assume "\<exists>p. s = p @ suf"
  then show "endswith s suf" by (auto simp: endswith_def)
qed

lemma endswith_audio_iff:
  "endswith_audio u \<longleftrightarrow> (\<exists>p. u = p @ ''.mp3'' \<or> u = p @ ''.wav'' \<or> u = p @ ''.ogg'')"
  unfolding endswith_audio_def endswith_iff by blast

lemma is_digit_digit_char: "d < 10 \<Longrightarrow> is_digit (digit_char d)"
proof -
  assume "d < 10"
  then have "d \<in> {0, 1, 2, 3, 4, 5, 6, 7, 8, 9}" by auto
  then show ?thesis by (auto simp: is_digit_def digit_char_def)
qed

lemma str_nat_digits: "list_all is_digit (str_nat n)"
proof (induction n rule: str_nat.induct)
  case (1 n)
  show ?case
  proof (cases "n < 10")
    case True
    then show ?thesis by (subst str_nat.simps) (simp add: is_digit_digit_char)
  next
    case False
    with 1 show ?thesis by (subst str_nat.simps) (simp add: is_digit_digit_char)
  qed
qed

lemma str_nat_length: "10 ^ k \<le> n \<Longrightarrow> n < 10 ^ Suc k \<Longrightarrow> length (str_nat n) = Suc k"
proof (induction k arbitrary: n)
  case 0
  then show ?case by (subst str_nat.simps) simp
next
  case (Suc k)
  have "(10::nat) \<le> 10 ^ Suc k" by simp
  with Suc.prems have big: "\<not> n < 10" by linarith
  from Suc.prems have "10 ^ k * 10 \<le> n" "n < 10 ^ Suc k * 10" by simp_all
  then have "10 ^ k \<le> n div 10" "n div 10 < 10 ^ Suc k" by linarith+
  then have "length (str_nat (n div 10)) = Suc k" by (rule Suc.IH)
  with big show ?case by (subst str_nat.simps) simp
qed

lemma str_int_randint:
  assumes "randint_ok r"
  shows "length (str_int r) = 8 \<and> list_all is_digit (str_int r)"
proof -
  have p: "(10::nat) ^ 7 = 10000000" "(10::nat) ^ Suc 7 = 100000000" by simp_all
  from assms have nn: "\<not> r < 0" and "10000000 \<le> nat r" and "nat r < 100000000"
    unfolding randint_ok_def by linarith+
  then have lo: "10 ^ 7 \<le> nat r" and hi: "nat r < 10 ^ Suc 7" by (simp_all only: p)
  from str_nat_length [OF lo hi] nn have "length (str_int r) = 8" by (simp add: str_int_def)
  moreover from nn have "list_all is_digit (str_int r)" by (simp add: str_int_def str_nat_digits)
  ultimately show ?thesis by simp
qed

section \<open>The file name\<close>

text \<open>
  Claim C6. Whatever number between 10000000 and 99999999 \<^verbatim>\<open>random.randint\<close> draws,
  \<^verbatim>\<open>generate_random_filename\<close> returns eight decimal digits followed by
  \<^verbatim>\<open>.keyclsound\<close>, and nothing else.
\<close>

theorem generate_random_filename_pattern:
  "randint_ok r \<Longrightarrow> matches_filename_pattern (generate_random_filename r)"
  using str_int_randint [of r]
  by (simp add: matches_filename_pattern_def generate_random_filename_def)

theorem generate_random_filename_pattern_witness:
  "randint_ok 10000000 \<and> matches_filename_pattern (generate_random_filename 10000000)
   \<and> generate_random_filename 10000000 = ''10000000.keyclsound''"
proof -
  have h: "randint_ok 10000000" by (simp add: randint_ok_def)
  have "generate_random_filename 10000000 = ''10000000.keyclsound''"
    by (simp add: generate_random_filename_def str_int_def str_nat.simps digit_char_def)
  with h generate_random_filename_pattern [OF h] show ?thesis by simp
qed

section \<open>Reading back what was encoded\<close>

lemma splitlines_from_line:
  "single_line l \<Longrightarrow>
   splitlines_from cur (l @ CHR ''\<newline>'' # rest) = (cur @ l) # splitlines_from [] rest"
  by (induction l arbitrary: cur) (auto simp: single_line_def)

lemma splitlines_encode:
  assumes "single_line_fields x"
  shows "splitlines (encode x) =
     [''title: '' @ title x, ''author: '' @ author x, ''description: '' @ description x,
      ''tags: '' @ tags x, ''url: '' @ url x]"
proof -
  have t: "single_line (''title: '' @ title x)" and a: "single_line (''author: '' @ author x)"
    and d: "single_line (''description: '' @ description x)"
    and g: "single_line (''tags: '' @ tags x)" and u: "single_line (''url: '' @ url x)"
    using assms by (simp_all add: single_line_fields_def single_line_def)
  have "encode x =
      (''title: '' @ title x) @ CHR ''\<newline>'' # (''author: '' @ author x) @ CHR ''\<newline>'' #
      (''description: '' @ description x) @ CHR ''\<newline>'' #
      (''tags: '' @ tags x) @ CHR ''\<newline>'' # (''url: '' @ url x) @ CHR ''\<newline>'' # []"
    by (simp add: encode_def)
  then have "splitlines (encode x) =
      ([] @ ''title: '' @ title x) # ([] @ ''author: '' @ author x) #
      ([] @ ''description: '' @ description x) # ([] @ ''tags: '' @ tags x) #
      ([] @ ''url: '' @ url x) # splitlines_from [] []"
    unfolding splitlines_def
    by (simp only: splitlines_from_line [OF t] splitlines_from_line [OF a]
        splitlines_from_line [OF d] splitlines_from_line [OF g] splitlines_from_line [OF u])
  then show ?thesis by simp
qed

lemma split_kv_keys:
  "split_kv (''title: '' @ v) = Some (''title'', v)"
  "split_kv (''author: '' @ v) = Some (''author'', v)"
  "split_kv (''description: '' @ v) = Some (''description'', v)"
  "split_kv (''tags: '' @ v) = Some (''tags'', v)"
  "split_kv (''url: '' @ v) = Some (''url'', v)"
  by simp_all

lemma decode_encode:
  assumes "single_line_fields x" and "\<not> blank (title x)"
  shows "decode (encode x) = Inr x"
  using assms(2) by (simp add: decode_def splitlines_encode [OF assms(1)] split_kv_keys)

lemma valid_two_line: "valid_descriptor two_line \<and> valid_descriptor two_line_twin"
  by (simp add: valid_descriptor_def two_line_def two_line_twin_def strip_eval audio_eval)

text \<open>
  Two different well-formed descriptors with the same encoding: the line feed inside a
  field is written as it is, so no reader at all can return each descriptor from its text.
\<close>

lemma encode_not_injective:
  "valid_descriptor two_line \<and> valid_descriptor two_line_twin \<and> two_line \<noteq> two_line_twin
   \<and> encode two_line = encode two_line_twin"
  using valid_two_line by (simp add: two_line_def two_line_twin_def encode_def)

text \<open>
  Claim C1, as stated: decoding the encoding of any valid descriptor returns it. It fails
  for the valid descriptor \<open>two_line\<close>, whose description holds a line feed: the text
  read back has another description and other tags.
\<close>

theorem decode_encode_two_line:
  "valid_descriptor two_line \<and> decode (encode two_line) \<noteq> Inr two_line"
proof -
  have "decode (encode two_line) = Inr (two_line\<lparr>description := ''x'', tags := ''a''\<rparr>)"
    by (simp add: two_line_def encode_def decode_def splitlines_def strip_eval)
  then show ?thesis using valid_two_line by (simp add: two_line_def)
qed

text \<open>
  Claim C1, amended: for every valid descriptor none of whose five fields holds a line
  feed, decoding the text produced by encoding it returns the descriptor itself.
\<close>

theorem decode_encode_single_line:
  "valid_descriptor x \<Longrightarrow> single_line_fields x \<Longrightarrow> decode (encode x) = Inr x"
  by (rule decode_encode) (simp_all add: valid_descriptor_def)

theorem decode_encode_single_line_witness:
  "valid_descriptor quork \<and> single_line_fields quork \<and> decode (encode quork) = Inr quork"
proof -
  have v: "valid_descriptor quork"
    by (simp add: valid_descriptor_def quork_def strip_eval audio_eval)
  have s: "single_line_fields quork"
    by (simp add: single_line_fields_def single_line_def quork_def)
  from decode_encode_single_line [OF v s] v s show ?thesis by simp
qed

section \<open>Validation\<close>

text \<open>
  Claim C2. On the trimmed fields, \<^verbatim>\<open>validate\<close> fails with a \<^verbatim>\<open>ValidationError\<close> exactly
  when the author, the tags or the url is empty or the url does not end with one of
  \<^verbatim>\<open>.mp3\<close>, \<^verbatim>\<open>.wav\<close>, \<^verbatim>\<open>.ogg\<close>; on every other input it succeeds, and it never fails in
  another way. A field is blank when \<^verbatim>\<open>strip()\<close> leaves nothing of it, which for a trimmed
  field is to be empty.
\<close>

theorem validate_fails_iff:
  "((\<exists>m. validate t a d g u = Inl (ValidationError m)) \<longleftrightarrow>
      (a = [] \<or> g = [] \<or> u = [] \<or> \<not> endswith_audio u))
   \<and> ((\<exists>x. validate t a d g u = Inr x) \<longleftrightarrow>
      \<not> (a = [] \<or> g = [] \<or> u = [] \<or> \<not> endswith_audio u))
   \<and> validate t a d g u \<noteq> Inl ParseError"
  by (simp add: validate_def)

theorem validate_fails_iff_witness:
  "(\<exists>m. validate (strip '' Quork '') (strip ''  '') (strip '''') (strip ''duck'') (strip ''a.mp3'')
          = Inl (ValidationError m))
   \<and> blank ''  ''
   \<and> (\<exists>x. validate (strip '' Quork '') (strip ''Me'') (strip '''') (strip ''duck'') (strip ''a.mp3 '') = Inr x)
   \<and> \<not> blank ''Me'' \<and> \<not> blank ''duck'' \<and> \<not> blank ''a.mp3 '' \<and> endswith_audio (strip ''a.mp3 '')"
proof -
  have b: "strip ''  '' = []" "strip ''Me'' = ''Me''" "strip ''duck'' = ''duck''"
    "strip ''a.mp3 '' = ''a.mp3''"
    by (simp_all add: strip_eval)
  have e: "endswith_audio ''a.mp3''" by (simp add: audio_eval)
  from validate_fails_iff [of "strip '' Quork ''" "strip ''  ''" "strip ''''" "strip ''duck''" "strip ''a.mp3''"]
    validate_fails_iff [of "strip '' Quork ''" "strip ''Me''" "strip ''''" "strip ''duck''" "strip ''a.mp3 ''"]
    b e
  show ?thesis by (simp add: blank_def)
qed

text \<open>
  Claim C5. When the author, the tags and the url pass the two checks, \<^verbatim>\<open>validate\<close>
  succeeds, and the title of its descriptor is \<^verbatim>\<open>Untitled Song\<close> if the trimmed title is
  empty and the trimmed title itself, unchanged, otherwise; the other four fields are the
  trimmed entries. No successful validation gives another title.
\<close>

theorem validate_title:
  "(a \<noteq> [] \<and> g \<noteq> [] \<and> u \<noteq> [] \<and> endswith_audio u \<longrightarrow>
      validate t a d g u =
        Inr \<lparr>title = (if t = [] then ''Untitled Song'' else t),
             author = a, description = d, tags = g, url = u\<rparr>)
   \<and> (validate t a d g u = Inr x \<longrightarrow> title x = (if t = [] then ''Untitled Song'' else t))"
  by (auto simp: validate_def split: if_splits)

theorem validate_title_witness:
  "''A'' \<noteq> [] \<and> ''t'' \<noteq> [] \<and> ''x.mp3'' \<noteq> [] \<and> endswith_audio ''x.mp3''
   \<and> strip '' '' = [] \<and> strip '' Quork '' = ''Quork''
   \<and> validate (strip '' '') ''A'' [] ''t'' ''x.mp3'' =
       Inr \<lparr>title = ''Untitled Song'', author = ''A'', description = [], tags = ''t'', url = ''x.mp3''\<rparr>
   \<and> validate (strip '' Quork '') ''A'' [] ''t'' ''x.mp3'' =
       Inr \<lparr>title = ''Quork'', author = ''A'', description = [], tags = ''t'', url = ''x.mp3''\<rparr>
   \<and> title \<lparr>title = ''Quork'', author = ''A'', description = [], tags = ''t'', url = ''x.mp3''\<rparr>
       = (if strip '' Quork '' = [] then ''Untitled Song'' else strip '' Quork '')"
proof -
  have h: "''A'' \<noteq> [] \<and> ''t'' \<noteq> [] \<and> ''x.mp3'' \<noteq> [] \<and> endswith_audio ''x.mp3''"
    by (simp add: audio_eval)
  have b: "strip '' '' = []" and q: "strip '' Quork '' = ''Quork''"
    by (simp_all add: strip_eval)
  from validate_title [of "''A''" "''t''" "''x.mp3''" "strip '' ''" "[]"] h b
  have 1: "validate (strip '' '') ''A'' [] ''t'' ''x.mp3'' =
       Inr \<lparr>title = ''Untitled Song'', author = ''A'', description = [], tags = ''t'', url = ''x.mp3''\<rparr>"
    by simp
  from validate_title [of "''A''" "''t''" "''x.mp3''" "strip '' Quork ''" "[]"] h q
  have 2: "validate (strip '' Quork '') ''A'' [] ''t'' ''x.mp3'' =
       Inr \<lparr>title = ''Quork'', author = ''A'', description = [], tags = ''t'', url = ''x.mp3''\<rparr>"
    by simp
  from validate_title [of "''A''" "''t''" "''x.mp3''" "strip '' Quork ''" "[]"
      "\<lparr>title = ''Quork'', author = ''A'', description = [], tags = ''t'', url = ''x.mp3''\<rparr>"] 2
  have 3: "title \<lparr>title = ''Quork'', author = ''A'', description = [], tags = ''t'', url = ''x.mp3''\<rparr>
       = (if strip '' Quork '' = [] then ''Untitled Song'' else strip '' Quork '')"
    by blast
  from h b q 1 2 3 show ?thesis by blast
qed

text \<open>
  Claim C7. The check of the extension compares characters as they are: a url that is not,
  character for character, some text followed by \<^verbatim>\<open>.mp3\<close>, \<^verbatim>\<open>.wav\<close> or \<^verbatim>\<open>.ogg\<close> fails
  validation with a \<^verbatim>\<open>ValidationError\<close>, whatever the other fields are. The witness is a
  url that ends with \<^verbatim>\<open>.MP3\<close>.
\<close>

theorem validate_extension:
  "(\<forall>p. u \<noteq> p @ ''.mp3'' \<and> u \<noteq> p @ ''.wav'' \<and> u \<noteq> p @ ''.ogg'') \<Longrightarrow>
     \<exists>m. validate t a d g u = Inl (ValidationError m)"
  using endswith_audio_iff [of u] by (auto simp: validate_def)

theorem validate_extension_witness:
  "(\<forall>p. ''https://example.com/a.MP3'' \<noteq> p @ ''.mp3'' \<and> ''https://example.com/a.MP3'' \<noteq> p @ ''.wav''
        \<and> ''https://example.com/a.MP3'' \<noteq> p @ ''.ogg'')
   \<and> (\<exists>m. validate ''T'' ''A'' [] ''t'' ''https://example.com/a.MP3'' = Inl (ValidationError m))"
proof -
  have "\<not> endswith_audio ''https://example.com/a.MP3''" by (simp add: audio_eval)
  then have h: "\<forall>p. ''https://example.com/a.MP3'' \<noteq> p @ ''.mp3'' \<and> ''https://example.com/a.MP3'' \<noteq> p @ ''.wav''
        \<and> ''https://example.com/a.MP3'' \<noteq> p @ ''.ogg''"
    unfolding endswith_audio_iff by blast
  from validate_extension [OF h] h show ?thesis by blast
qed

section \<open>Encoding\<close>

text \<open>
  Claim C3, as stated: the encoding has one pair per line and no blank line, and the
  encoding of the example is the block of the specification, which ends with the url. It
  fails twice: the encoding of the example has a line feed after the url, and a description
  that holds an empty line is written with its empty line.
\<close>

theorem encode_not_the_block:
  "encode quork \<noteq>
     ''title: Quork\<newline>author: MyInstants\<newline>description: A funny quack sound\<newline>tags: duck,funny,quack\<newline>url: https://example.com/cannard.mp3''
   \<and> [] \<in> set (splitlines (encode spaced))"
  by (simp add: encode_def quork_def spaced_def splitlines_def)

text \<open>
  Claim C3, amended: \<^verbatim>\<open>encode\<close> always emits the five fields in the order title, author,
  description, tags, url, each as \<^verbatim>\<open>key: value\<close> followed by a line feed, the last one
  included; when no field holds a line feed these are exactly five lines, none of them
  blank; the encoding of the example is the block of the specification followed by a line
  feed.
\<close>

theorem encode_layout:
  "encode x =
     ''title: '' @ title x @ ''\<newline>author: '' @ author x @ ''\<newline>description: '' @ description x
       @ ''\<newline>tags: '' @ tags x @ ''\<newline>url: '' @ url x @ ''\<newline>''
   \<and> (single_line_fields x \<longrightarrow>
        splitlines (encode x) =
          [''title: '' @ title x, ''author: '' @ author x, ''description: '' @ description x,
           ''tags: '' @ tags x, ''url: '' @ url x]
        \<and> [] \<notin> set (splitlines (encode x)))
   \<and> encode quork =
        ''title: Quork\<newline>author: MyInstants\<newline>description: A funny quack sound\<newline>tags: duck,funny,quack\<newline>url: https://example.com/cannard.mp3\<newline>''"
proof (intro conjI impI)
  show "encode x =
     ''title: '' @ title x @ ''\<newline>author: '' @ author x @ ''\<newline>description: '' @ description x
       @ ''\<newline>tags: '' @ tags x @ ''\<newline>url: '' @ url x @ ''\<newline>''"
    by (simp add: encode_def)
  show "encode quork =
        ''title: Quork\<newline>author: MyInstants\<newline>description: A funny quack sound\<newline>tags: duck,funny,quack\<newline>url: https://example.com/cannard.mp3\<newline>''"
    by (simp add: encode_def quork_def)
next
  assume s: "single_line_fields x"
  show "splitlines (encode x) =
          [''title: '' @ title x, ''author: '' @ author x, ''description: '' @ description x,
           ''tags: '' @ tags x, ''url: '' @ url x]"
    by (rule splitlines_encode [OF s])
  show "[] \<notin> set (splitlines (encode x))"
    by (simp add: splitlines_encode [OF s])
qed

theorem encode_layout_witness:
  "single_line_fields quork \<and>
   splitlines (encode quork) =
     [''title: Quork'', ''author: MyInstants'', ''description: A funny quack sound'',
      ''tags: duck,funny,quack'', ''url: https://example.com/cannard.mp3'']"
proof -
  have s: "single_line_fields quork"
    by (simp add: single_line_fields_def single_line_def quork_def)
  from encode_layout [of quork] s have "splitlines (encode quork) =
          [''title: '' @ title quork, ''author: '' @ author quork, ''description: '' @ description quork,
           ''tags: '' @ tags quork, ''url: '' @ url quork]" by blast
  with s show ?thesis by (simp add: quork_def)
qed

section \<open>Saving\<close>

text \<open>
  Claim C4, as stated: saving never replaces a file that is there, the write fails
  instead. It fails on a directory that holds \<^verbatim>\<open>12345678.keyclsound\<close> when the generator
  draws 12345678: \<^verbatim>\<open>save_keyclsound\<close> returns the name and the old content is gone.
\<close>

theorem save_keyclsound_replaces_old_file:
  "randint_ok 12345678
   \<and> contents old_disk (generate_random_filename 12345678) = Some ''old''
   \<and> save_keyclsound ''new'' 12345678 old_disk =
       Inr (''12345678.keyclsound'',
            old_disk\<lparr>contents := (contents old_disk)(''12345678.keyclsound'' \<mapsto> ''new'')\<rparr>)"
proof -
  have n: "generate_random_filename 12345678 = ''12345678.keyclsound''"
    by (simp add: generate_random_filename_def str_int_def str_nat.simps digit_char_def)
  show ?thesis
    by (simp add: n randint_ok_def save_keyclsound_def open_w_write_def old_disk_def Let_def)
qed

text \<open>
  Claim C4, amended: when opening the generated name is not refused, \<^verbatim>\<open>save_keyclsound\<close>
  returns that name and the directory holds the text under it, every other file being as
  before; a file that had this name is replaced without an error, and when no file had it
  exactly one file is new.
\<close>

theorem save_keyclsound_writes:
  "\<not> denied fs (generate_random_filename r) \<Longrightarrow>
     save_keyclsound data r fs =
       Inr (generate_random_filename r,
            fs\<lparr>contents := (contents fs)(generate_random_filename r \<mapsto> data)\<rparr>)
     \<and> dom ((contents fs)(generate_random_filename r \<mapsto> data)) - dom (contents fs) =
         (if generate_random_filename r \<in> dom (contents fs) then {}
          else {generate_random_filename r})"
  by (auto simp: save_keyclsound_def open_w_write_def Let_def)

theorem save_keyclsound_writes_witness:
  "\<not> denied old_disk (generate_random_filename 10000000)
   \<and> generate_random_filename 10000000 \<notin> dom (contents old_disk)
   \<and> save_keyclsound ''new'' 10000000 old_disk =
       Inr (''10000000.keyclsound'',
            old_disk\<lparr>contents := (contents old_disk)(''10000000.keyclsound'' \<mapsto> ''new'')\<rparr>)
   \<and> dom ((contents old_disk)(''10000000.keyclsound'' \<mapsto> ''new'')) - dom (contents old_disk) =
       {''10000000.keyclsound''}"
proof -
  have n: "generate_random_filename 10000000 = ''10000000.keyclsound''"
    by (simp add: generate_random_filename_def str_int_def str_nat.simps digit_char_def)
  have h: "\<not> denied old_disk (generate_random_filename 10000000)"
    by (simp add: old_disk_def)
  have f: "generate_random_filename 10000000 \<notin> dom (contents old_disk)"
    by (simp add: n old_disk_def)
  from save_keyclsound_writes [OF h, of "''new''"] h f show ?thesis
    by (simp add: n)
qed

section \<open>The handler on invalid input\<close>

text \<open>
  Claim C8. When the trimmed entries fail validation, \<^verbatim>\<open>generate_file()\<close> shows one error
  dialog with the message of the failure and returns: the state after it is the state
  before it with this one dialog added, so no file is written, no entry is changed and
  nothing is tried again. \<^verbatim>\<open>validate\<close> itself is a function of the five fields alone.
\<close>

theorem generate_file_handler_invalid:
  "validate (strip (title_entry s)) (strip (author_entry s)) (strip (desc_entry s))
     (strip (tags_entry s)) (strip (manual_url_entry s)) = Inl e \<Longrightarrow>
   \<exists>m. e = ValidationError m
     \<and> generate_file_handler r s = Inr (s\<lparr>dialogs := dialogs s @ [ShowError ''Error'' m]\<rparr>)"
  by (auto simp: generate_file_handler_codec messagebox_def validate_def split: if_splits)

theorem generate_file_handler_invalid_witness:
  "validate (strip (title_entry window)) (strip (author_entry window)) (strip (desc_entry window))
     (strip (tags_entry window)) (strip (manual_url_entry window))
     = Inl (ValidationError ''Author, Tags, and URL are required!'')
   \<and> generate_file_handler 12345678 window =
       Inr (window\<lparr>dialogs := [ShowError ''Error'' ''Author, Tags, and URL are required!'']\<rparr>)"
proof -
  have v: "validate (strip (title_entry window)) (strip (author_entry window)) (strip (desc_entry window))
     (strip (tags_entry window)) (strip (manual_url_entry window))
     = Inl (ValidationError ''Author, Tags, and URL are required!'')"
    by (simp add: validate_def window_def strip_eval)
  have d: "dialogs window = []" by (simp add: window_def)
  from generate_file_handler_invalid [OF v, of 12345678] v d show ?thesis by simp
qed

section \<open>The listing\<close>

lemma fetch_repo_contents_cases:
  "requests_get (api_url path) = Raises \<Longrightarrow> fetch_repo_contents requests_get path = []"
  "requests_get (api_url path) = Returns resp \<Longrightarrow> status_code resp \<noteq> 200 \<Longrightarrow>
     fetch_repo_contents requests_get path = []"
  "requests_get (api_url path) = Returns resp \<Longrightarrow> status_code resp = 200 \<Longrightarrow>
     fetch_repo_contents requests_get path = (case json resp of None \<Rightarrow> [] | Some items \<Rightarrow> items)"
  by (simp_all add: fetch_repo_contents_def)

text \<open>
  Claim C9. \<^verbatim>\<open>fetch_repo_contents\<close> always returns a list: the empty one when the request
  raises, when the status is not 200 and when the body of a response with status 200 cannot
  be parsed, and the parsed body when the status is 200. A list that is not empty comes
  from a response with status 200 only.
\<close>

theorem fetch_repo_contents_total:
  "(requests_get (api_url path) = Raises \<longrightarrow> fetch_repo_contents requests_get path = [])
   \<and> (\<forall>resp. requests_get (api_url path) = Returns resp \<and> status_code resp \<noteq> 200 \<longrightarrow>
         fetch_repo_contents requests_get path = [])
   \<and> (\<forall>resp. requests_get (api_url path) = Returns resp \<and> status_code resp = 200 \<and> json resp = None \<longrightarrow>
         fetch_repo_contents requests_get path = [])
   \<and> (\<forall>resp items. requests_get (api_url path) = Returns resp \<and> status_code resp = 200
         \<and> json resp = Some items \<longrightarrow> fetch_repo_contents requests_get path = items)
   \<and> (fetch_repo_contents requests_get path \<noteq> [] \<longrightarrow>
         (\<exists>resp. requests_get (api_url path) = Returns resp \<and> status_code resp = 200
            \<and> json resp = Some (fetch_repo_contents requests_get path)))"
proof (intro conjI allI impI)
  show "fetch_repo_contents requests_get path = []" if "requests_get (api_url path) = Raises"
    using that by (rule fetch_repo_contents_cases)
  show "fetch_repo_contents requests_get path = []"
    if "requests_get (api_url path) = Returns resp \<and> status_code resp \<noteq> 200" for resp
    using that by (simp add: fetch_repo_contents_cases)
  show "fetch_repo_contents requests_get path = []"
    if "requests_get (api_url path) = Returns resp \<and> status_code resp = 200 \<and> json resp = None" for resp
    using that by (simp add: fetch_repo_contents_cases)
  show "fetch_repo_contents requests_get path = items"
    if "requests_get (api_url path) = Returns resp \<and> status_code resp = 200 \<and> json resp = Some items"
    for resp items
    using that by (simp add: fetch_repo_contents_cases)
  show "\<exists>resp. requests_get (api_url path) = Returns resp \<and> status_code resp = 200
            \<and> json resp = Some (fetch_repo_contents requests_get path)"
    if ne: "fetch_repo_contents requests_get path \<noteq> []"
  proof (cases "requests_get (api_url path)")
    case Raises
    with ne show ?thesis by (simp add: fetch_repo_contents_cases)
  next
    case (Returns resp)
    show ?thesis
    proof (cases "status_code resp = 200")
      case False
      with Returns ne show ?thesis by (simp add: fetch_repo_contents_cases)
    next
      case True
      with Returns ne have "json resp = Some (fetch_repo_contents requests_get path)"
        by (cases "json resp") (simp_all add: fetch_repo_contents_cases)
      with Returns True show ?thesis by simp
    qed
  qed
qed

theorem fetch_repo_contents_total_witness:
  "offline (api_url ''sounds'') = Raises \<and> fetch_repo_contents offline ''sounds'' = []
   \<and> not_found (api_url ''sounds'') = Returns \<lparr>status_code = 404, json = Some [readme]\<rparr>
   \<and> fetch_repo_contents not_found ''sounds'' = []
   \<and> garbled (api_url ''sounds'') = Returns \<lparr>status_code = 200, json = None\<rparr>
   \<and> fetch_repo_contents garbled ''sounds'' = []
   \<and> listing (api_url ''sounds'') = Returns \<lparr>status_code = 200, json = Some [readme, song]\<rparr>
   \<and> fetch_repo_contents listing ''sounds'' = [readme, song]"
proof -
  have o: "offline (api_url ''sounds'') = Raises" by (simp add: offline_def)
  have n: "not_found (api_url ''sounds'') = Returns \<lparr>status_code = 404, json = Some [readme]\<rparr>
      \<and> status_code \<lparr>status_code = 404, json = Some [readme]\<rparr> \<noteq> 200"
    by (simp add: not_found_def)
  have g: "garbled (api_url ''sounds'') = Returns \<lparr>status_code = 200, json = None\<rparr>
      \<and> status_code \<lparr>status_code = 200, json = None :: item list option\<rparr> = 200
      \<and> json \<lparr>status_code = 200, json = None :: item list option\<rparr> = None"
    by (simp add: garbled_def)
  have l: "listing (api_url ''sounds'') = Returns \<lparr>status_code = 200, json = Some [readme, song]\<rparr>
      \<and> status_code \<lparr>status_code = 200, json = Some [readme, song]\<rparr> = 200
      \<and> json \<lparr>status_code = 200, json = Some [readme, song]\<rparr> = Some [readme, song]"
    by (simp add: listing_def)
  from fetch_repo_contents_total [of offline "''sounds''"] o
  have 1: "fetch_repo_contents offline ''sounds'' = []" by blast
  from fetch_repo_contents_total [of not_found "''sounds''"] n
  have 2: "fetch_repo_contents not_found ''sounds'' = []" by blast
  from fetch_repo_contents_total [of garbled "''sounds''"] g
  have 3: "fetch_repo_contents garbled ''sounds'' = []" by blast
  from fetch_repo_contents_total [of listing "''sounds''"] l
  have 4: "fetch_repo_contents listing ''sounds'' = [readme, song]" by blast
  from o n g l 1 2 3 4 show ?thesis by blast
qed

section \<open>Selecting a row\<close>

lemma load_repo_selected_url:
  "selected_url (load_repo requests_get path s) = selected_url s
   \<and> manual_url_entry (load_repo requests_get path s) = manual_url_entry s"
  by (simp add: load_repo_def Let_def)

text \<open>
  Claim C10. When the selected row stands for an entry of type \<^verbatim>\<open>file\<close> whose name does
  not end with \<^verbatim>\<open>.mp3\<close>, \<^verbatim>\<open>.wav\<close> or \<^verbatim>\<open>.ogg\<close>, \<^verbatim>\<open>select_item\<close> only shows the
  information dialog: the selected url, the manual url entry and all the rest of the state
  stay as they were. And whenever \<^verbatim>\<open>select_item\<close> changes the selected url or the manual
  url entry, the selected row is not the row \<^verbatim>\<open>[..]\<close>, it stands for an entry of the
  list, that entry is a file with one of the three suffixes, and the new state is the old
  one with both set to its download url.
\<close>

theorem select_item_not_audio:
  "(curselection s = idx # rest \<and> \<not> (current_path s \<noteq> [] \<and> idx = 0)
      \<and> i = (if current_path s = [] then idx else idx - 1) \<and> i < length items
      \<and> item_type (items ! i) = ''file'' \<and> \<not> endswith_audio (item_name (items ! i)) \<longrightarrow>
    select_item requests_get items s =
      Inr (s\<lparr>dialogs := dialogs s @
             [ShowInfo ''Info'' ''Only .mp3, .wav, or .ogg can be selected for KeyCL.'']\<rparr>))
   \<and> (select_item requests_get items s = Inr s'
        \<and> (selected_url s' \<noteq> selected_url s \<or> manual_url_entry s' \<noteq> manual_url_entry s) \<longrightarrow>
      (\<exists>idx rest. curselection s = idx # rest \<and> \<not> (current_path s \<noteq> [] \<and> idx = 0)
         \<and> (let i = (if current_path s = [] then idx else idx - 1); it = items ! i
            in i < length items \<and> item_type it = ''file'' \<and> endswith_audio (item_name it)
               \<and> s' = s\<lparr>selected_url := item_download_url it,
                          manual_url_entry := item_download_url it\<rparr>)))"
proof (intro conjI impI)
  assume "curselection s = idx # rest \<and> \<not> (current_path s \<noteq> [] \<and> idx = 0)
      \<and> i = (if current_path s = [] then idx else idx - 1) \<and> i < length items
      \<and> item_type (items ! i) = ''file'' \<and> \<not> endswith_audio (item_name (items ! i))"
  then show "select_item requests_get items s =
      Inr (s\<lparr>dialogs := dialogs s @
             [ShowInfo ''Info'' ''Only .mp3, .wav, or .ogg can be selected for KeyCL.'']\<rparr>)"
    by (auto simp: select_item_def messagebox_def Let_def)
next
  assume a: "select_item requests_get items s = Inr s'
        \<and> (selected_url s' \<noteq> selected_url s \<or> manual_url_entry s' \<noteq> manual_url_entry s)"
  then obtain idx rest where c: "curselection s = idx # rest"
    by (cases "curselection s") (auto simp: select_item_def)
  from a c have "\<not> (current_path s \<noteq> [] \<and> idx = 0)
         \<and> (let i = (if current_path s = [] then idx else idx - 1); it = items ! i
            in i < length items \<and> item_type it = ''file'' \<and> endswith_audio (item_name it)
               \<and> s' = s\<lparr>selected_url := item_download_url it,
                          manual_url_entry := item_download_url it\<rparr>)"
    by (auto simp: select_item_def Let_def messagebox_def load_repo_selected_url
        split: if_splits)
  with c show "\<exists>idx rest. curselection s = idx # rest \<and> \<not> (current_path s \<noteq> [] \<and> idx = 0)
         \<and> (let i = (if current_path s = [] then idx else idx - 1); it = items ! i
            in i < length items \<and> item_type it = ''file'' \<and> endswith_audio (item_name it)
               \<and> s' = s\<lparr>selected_url := item_download_url it,
                          manual_url_entry := item_download_url it\<rparr>)"
    by blast
qed

theorem select_item_not_audio_witness:
  "curselection window = 0 # [] \<and> \<not> (current_path window \<noteq> [] \<and> (0::nat) = 0)
   \<and> (0::nat) < length [readme, song]
   \<and> item_type ([readme, song] ! 0) = ''file'' \<and> \<not> endswith_audio (item_name ([readme, song] ! 0))
   \<and> select_item listing [readme, song] window =
       Inr (window\<lparr>dialogs :=
             [ShowInfo ''Info'' ''Only .mp3, .wav, or .ogg can be selected for KeyCL.'']\<rparr>)
   \<and> select_item listing [readme, song] (window\<lparr>curselection := [1]\<rparr>) =
       Inr (window\<lparr>curselection := [1], selected_url := ''https://raw.example/duck.mp3'',
                  manual_url_entry := ''https://raw.example/duck.mp3''\<rparr>)
   \<and> selected_url (window\<lparr>curselection := [1], selected_url := ''https://raw.example/duck.mp3'',
                  manual_url_entry := ''https://raw.example/duck.mp3''\<rparr>)
       \<noteq> selected_url (window\<lparr>curselection := [1]\<rparr>)
   \<and> item_type ([readme, song] ! 1) = ''file'' \<and> endswith_audio (item_name ([readme, song] ! 1))"
proof -
  have h: "curselection window = 0 # [] \<and> \<not> (current_path window \<noteq> [] \<and> (0::nat) = 0)
      \<and> (0::nat) = (if current_path window = [] then 0 else 0 - 1) \<and> (0::nat) < length [readme, song]
      \<and> item_type ([readme, song] ! 0) = ''file'' \<and> \<not> endswith_audio (item_name ([readme, song] ! 0))"
    by (simp add: window_def readme_def audio_eval)
  have d: "dialogs window = []" by (simp add: window_def)
  have s2: "select_item listing [readme, song] (window\<lparr>curselection := [1]\<rparr>) =
       Inr (window\<lparr>curselection := [1], selected_url := ''https://raw.example/duck.mp3'',
                  manual_url_entry := ''https://raw.example/duck.mp3''\<rparr>)"
    by (simp add: select_item_def window_def song_def readme_def audio_eval Let_def)
  have c: "selected_url (window\<lparr>curselection := [1], selected_url := ''https://raw.example/duck.mp3'',
                  manual_url_entry := ''https://raw.example/duck.mp3''\<rparr>)
       \<noteq> selected_url (window\<lparr>curselection := [1]\<rparr>)"
    by (simp add: window_def)
  from select_item_not_audio [of "window\<lparr>curselection := [1]\<rparr>" _ _ _ "[readme, song]" listing
      "window\<lparr>curselection := [1], selected_url := ''https://raw.example/duck.mp3'',
                  manual_url_entry := ''https://raw.example/duck.mp3''\<rparr>"] s2 c
  have "\<exists>idx rest. curselection (window\<lparr>curselection := [1]\<rparr>) = idx # rest
      \<and> \<not> (current_path (window\<lparr>curselection := [1]\<rparr>) \<noteq> [] \<and> idx = 0)
      \<and> (let i = (if current_path (window\<lparr>curselection := [1]\<rparr>) = [] then idx else idx - 1);
              it = [readme, song] ! i
          in i < length [readme, song] \<and> item_type it = ''file'' \<and> endswith_audio (item_name it)
             \<and> window\<lparr>curselection := [1], selected_url := ''https://raw.example/duck.mp3'',
                  manual_url_entry := ''https://raw.example/duck.mp3''\<rparr>
               = window\<lparr>curselection := [1], selected_url := item_download_url it,
                          manual_url_entry := item_download_url it\<rparr>)"
    by blast
  then have e: "item_type ([readme, song] ! 1) = ''file'' \<and> endswith_audio (item_name ([readme, song] ! 1))"
    by (auto simp: window_def Let_def)
  from select_item_not_audio [of window 0 "[]" 0 "[readme, song]" listing] h
  have "select_item listing [readme, song] window =
      Inr (window\<lparr>dialogs := dialogs window @
             [ShowInfo ''Info'' ''Only .mp3, .wav, or .ogg can be selected for KeyCL.'']\<rparr>)"
    by blast
  with h d s2 c e show ?thesis by simp
qed

end
